theory Spec2Isabelle
  imports Main
begin

section \<open>Values, exceptions and outcomes\<close>

text \<open>
  A packet is what \<^verbatim>\<open>json.loads\<close> returns: a Python value built from
  \<^verbatim>\<open>None\<close>, booleans, integers, strings, lists and dicts with string keys.
  JSON numbers with a fraction are left out of the model.
\<close>

datatype json =
    JNull
  | JBool bool
  | JNum int
  | JStr string
  | JArr "json list"
  | JObj "(string \<times> json) list"

text \<open>
  A text on the wire: either the text \<^verbatim>\<open>json.dumps\<close> produces for a value, or a
  text that is not JSON at all.
\<close>

datatype wire = Dumped json | Junk string

text \<open>
  An f-string \<^verbatim>\<open>f"prefix{v}"\<close> is kept as the pair of its prefix and the
  value formatted into it.
\<close>

datatype message = Lit string | Fmt string json

text \<open>
  Modelled from the spec: the exception classes \<^verbatim>\<open>UnknownClient\<close>,
  \<^verbatim>\<open>RequestFailed\<close>, \<^verbatim>\<open>BaseZonisException\<close> and
  \<^verbatim>\<open>DuplicateConnection\<close> are declared in the package outside the file at hand.
  Section 7 of the spec lists them as the error taxonomy and says that the generic handshake
  failure wraps any of them; each one is therefore caught by \<^verbatim>\<open>except Exception\<close>,
  and none of them is a \<^verbatim>\<open>ConnectionClosedOK\<close>.
  The second argument of \<open>BaseZonisException\<close> is the cause set by
  \<^verbatim>\<open>raise ... from e\<close>.
\<close>

datatype exn =
    KeyError string
  | TypeError
  | AttributeError
  | JSONDecodeError
  | ConnectionClosedOK
  | ConnectionClosedError
  | WebSocketDisconnect
  | UnknownClient
  | RequestFailed json
  | DuplicateConnection string
  | BaseZonisException message "exn option"

text \<open>
  A call returns a value, raises, or never returns (a receive on a connection on which
  nothing arrives any more).
\<close>

datatype 'a outcome = Returns 'a | Raises exn | Hangs

definition seq :: "'a outcome \<times> 's \<Rightarrow> ('a \<Rightarrow> 's \<Rightarrow> 'b outcome \<times> 's) \<Rightarrow> 'b outcome \<times> 's" where
  "seq m f =
     (case m of
        (Returns x, s) \<Rightarrow> f x s
      | (Raises e, s) \<Rightarrow> (Raises e, s)
      | (Hangs, s) \<Rightarrow> (Hangs, s))"

section \<open>Python operations on decoded values\<close>

text \<open>\<^verbatim>\<open>x[key]\<close> with a string key: only a dict can be subscripted so.\<close>

fun py_getitem :: "json \<Rightarrow> string \<Rightarrow> json outcome" where
  "py_getitem (JObj kvs) k =
     (case map_of kvs k of None \<Rightarrow> Raises (KeyError k) | Some v \<Rightarrow> Returns v)"
| "py_getitem _ k = Raises TypeError"

text \<open>\<^verbatim>\<open>x.get(key)\<close>: only a dict has the method.\<close>

fun py_get :: "json \<Rightarrow> string \<Rightarrow> json outcome" where
  "py_get (JObj kvs) k =
     Returns (case map_of kvs k of None \<Rightarrow> JNull | Some v \<Rightarrow> v)"
| "py_get _ k = Raises AttributeError"

text \<open>Truth value of a decoded value, as \<^verbatim>\<open>not x\<close> tests it.\<close>

fun truthy :: "json \<Rightarrow> bool" where
  "truthy JNull = False"
| "truthy (JBool b) = b"
| "truthy (JNum n) = (n \<noteq> 0)"
| "truthy (JStr s) = (s \<noteq> [])"
| "truthy (JArr xs) = (xs \<noteq> [])"
| "truthy (JObj kvs) = (kvs \<noteq> [])"

definition json_dumps :: "json \<Rightarrow> wire" where
  "json_dumps v = Dumped v"

fun json_loads :: "wire \<Rightarrow> json outcome" where
  "json_loads (Dumped v) = Returns v"
| "json_loads (Junk t) = Raises JSONDecodeError"

subsection \<open>Python dicts keyed by decoded values\<close>

text \<open>
  Lists and dicts are not hashable. Among the hashable values, booleans and integers are
  equal as keys when their numbers are (\<^verbatim>\<open>True == 1\<close>).
\<close>

fun hashable :: "json \<Rightarrow> bool" where
  "hashable (JArr xs) = False"
| "hashable (JObj kvs) = False"
| "hashable _ = True"

fun py_eq :: "json \<Rightarrow> json \<Rightarrow> bool" where
  "py_eq JNull JNull = True"
| "py_eq (JStr a) (JStr b) = (a = b)"
| "py_eq (JBool a) (JBool b) = (a = b)"
| "py_eq (JBool a) (JNum n) = (n = (if a then 1 else 0))"
| "py_eq (JNum n) (JBool a) = (n = (if a then 1 else 0))"
| "py_eq (JNum m) (JNum n) = (m = n)"
| "py_eq _ _ = False"

text \<open>
  A dict keeps its entries in insertion order; an assignment to a key that is present
  replaces the value in place and keeps the key object.
\<close>

fun dict_get :: "(json \<times> 'v) list \<Rightarrow> json \<Rightarrow> 'v option" where
  "dict_get [] k = None"
| "dict_get ((k', v) # d) k = (if py_eq k' k then Some v else dict_get d k)"

fun dict_set :: "(json \<times> 'v) list \<Rightarrow> json \<Rightarrow> 'v \<Rightarrow> (json \<times> 'v) list" where
  "dict_set [] k v = [(k, v)]"
| "dict_set ((k', v') # d) k v =
     (if py_eq k' k then (k', v) # d else (k', v') # dict_set d k v)"

definition dict_pop :: "(json \<times> 'v) list \<Rightarrow> json \<Rightarrow> (json \<times> 'v) list" where
  "dict_pop d k = filter (\<lambda>(k', v). \<not> py_eq k' k) d"

text \<open>\<^verbatim>\<open>k in d\<close>: hashes the key first.\<close>

definition py_contains :: "json \<Rightarrow> (json \<times> 'v) list \<Rightarrow> bool outcome" where
  "py_contains k d =
     (if hashable k then Returns (dict_get d k \<noteq> None) else Raises TypeError)"

section \<open>Connections and the server\<close>

text \<open>
  The transport is outside the program. A connection object is modelled by what the
  program can observe of it: the texts it accepted, the script of what its next
  receives deliver, the exception its send raises (if the peer is gone), and the close
  calls made on it. A connection handle is the identity of the object.
\<close>

datatype event = Deliver wire | Fault exn

record socket =
  sent :: "wire list"
  inbox :: "event list"
  send_fault :: "exn option"
  closed :: "(nat \<times> message) list"

type_synonym websocket = nat

text \<open>
  The fields of \<^verbatim>\<open>Server\<close>, and with them the connection objects its handles
  refer to.
\<close>

record server =
  connections :: "(json \<times> websocket) list"
  secret_key :: string
  override_key :: string
  using_fastapi_websockets :: bool
  heap :: "websocket \<Rightarrow> socket"

text \<open>
  \<^verbatim>\<open>__init__\<close>; \<open>token\<close> is what \<^verbatim>\<open>secrets.token_hex(64)\<close> returns.
\<close>

definition Server_init ::
    "bool \<Rightarrow> string option \<Rightarrow> string \<Rightarrow> string \<Rightarrow> (websocket \<Rightarrow> socket) \<Rightarrow> server" where
  "Server_init fastapi okey skey token h =
     \<lparr>connections = [],
      secret_key = skey,
      override_key = (case okey of Some k \<Rightarrow> k | None \<Rightarrow> token),
      using_fastapi_websockets = fastapi,
      heap = h\<rparr>"

definition socket_send :: "wire \<Rightarrow> websocket \<Rightarrow> server \<Rightarrow> unit outcome \<times> server" where
  "socket_send content conn s =
     (case send_fault (heap s conn) of
        Some e \<Rightarrow> (Raises e, s)
      | None \<Rightarrow>
          (Returns (),
           s\<lparr>heap := (heap s)(conn := (heap s conn)\<lparr>sent := sent (heap s conn) @ [content]\<rparr>)\<rparr>))"

definition socket_recv :: "websocket \<Rightarrow> server \<Rightarrow> wire outcome \<times> server" where
  "socket_recv conn s =
     (case inbox (heap s conn) of
        [] \<Rightarrow> (Hangs, s)
      | ev # rest \<Rightarrow>
          (case ev of Deliver t \<Rightarrow> Returns t | Fault e \<Rightarrow> Raises e,
           s\<lparr>heap := (heap s)(conn := (heap s conn)\<lparr>inbox := rest\<rparr>)\<rparr>))"

definition socket_close :: "websocket \<Rightarrow> nat \<Rightarrow> message \<Rightarrow> server \<Rightarrow> unit outcome \<times> server" where
  "socket_close conn code reason s =
     (Returns (),
      s\<lparr>heap := (heap s)(conn := (heap s conn)\<lparr>closed := closed (heap s conn) @ [(code, reason)]\<rparr>)\<rparr>)"

text \<open>\<^verbatim>\<open>disconnect\<close>: \<^verbatim>\<open>self._connections.pop(identifier, None)\<close>.\<close>

definition disconnect :: "string \<Rightarrow> server \<Rightarrow> server" where
  "disconnect identifier s = s\<lparr>connections := dict_pop (connections s) (JStr identifier)\<rparr>"

text \<open>
  \<^verbatim>\<open>_send\<close>: \<^verbatim>\<open>send_text\<close> of the one adapter and \<^verbatim>\<open>send\<close> of the
  other are the same operation of the model.
\<close>

definition server_send :: "wire \<Rightarrow> websocket \<Rightarrow> server \<Rightarrow> unit outcome \<times> server" where
  "server_send content conn s =
     (if using_fastapi_websockets s then socket_send content conn s
      else socket_send content conn s)"

text \<open>
  \<^verbatim>\<open>_recv\<close>: with the framework's sockets a \<^verbatim>\<open>WebSocketDisconnect\<close> is
  turned into \<^verbatim>\<open>RequestFailed\<close>; every other exception passes.
\<close>

definition server_recv :: "websocket \<Rightarrow> server \<Rightarrow> wire outcome \<times> server" where
  "server_recv conn s =
     (if using_fastapi_websockets s then
        (case socket_recv conn s of
           (Raises e, s') \<Rightarrow>
             (if e = WebSocketDisconnect
              then (Raises (RequestFailed (JStr ''Websocket disconnected while waiting for receive.'')), s')
              else (Raises e, s'))
         | r \<Rightarrow> r)
      else socket_recv conn s)"

definition Packet :: "json \<Rightarrow> string \<Rightarrow> json \<Rightarrow> json" where
  "Packet identifier type data =
     JObj [(''identifier'', identifier), (''type'', JStr type), (''data'', data)]"

definition RequestPacket :: "string \<Rightarrow> (string \<times> json) list \<Rightarrow> json" where
  "RequestPacket route arguments =
     JObj [(''route'', JStr route), (''arguments'', JObj arguments)]"

section \<open>Requests\<close>

text \<open>
  \<^verbatim>\<open>request\<close>. A connection object is never falsy, so \<^verbatim>\<open>not conn\<close> holds
  exactly when the lookup gave \<^verbatim>\<open>None\<close>.
\<close>

definition request ::
    "string \<Rightarrow> string \<Rightarrow> (string \<times> json) list \<Rightarrow> server \<Rightarrow> json outcome \<times> server" where
  "request route client_identifier kwargs s =
     (case dict_get (connections s) (JStr client_identifier) of
        None \<Rightarrow> (Raises UnknownClient, s)
      | Some conn \<Rightarrow>
          seq (server_send
                 (json_dumps (Packet (JStr client_identifier) ''REQUEST'' (RequestPacket route kwargs)))
                 conn s) (\<lambda>_ s.
          seq (server_recv conn s) (\<lambda>d s.
          seq (json_loads d, s) (\<lambda>packet s.
          seq (py_getitem packet ''type'', s) (\<lambda>t s.
            if t = JStr ''FAILURE_RESPONSE''
            then seq (py_getitem packet ''data'', s) (\<lambda>data s. (Raises (RequestFailed data), s))
            else (py_getitem packet ''data'', s))))))"

text \<open>A value stored in the result of \<^verbatim>\<open>request_all\<close>: data or an exception object.\<close>

datatype pyval = Data json | Error exn

text \<open>The body of the \<^verbatim>\<open>try\<close> of \<^verbatim>\<open>request_all\<close>; it yields the value assigned to \<^verbatim>\<open>results[i]\<close>.\<close>

definition request_all_try ::
    "string \<Rightarrow> (string \<times> json) list \<Rightarrow> json \<Rightarrow> websocket \<Rightarrow> server \<Rightarrow> pyval outcome \<times> server" where
  "request_all_try route kwargs i conn s =
     seq (server_send (json_dumps (Packet i ''REQUEST'' (RequestPacket route kwargs))) conn s) (\<lambda>_ s.
     seq (server_recv conn s) (\<lambda>d s.
     seq (json_loads d, s) (\<lambda>packet s.
     seq (py_getitem packet ''type'', s) (\<lambda>t s.
       if t = JStr ''FAILURE_RESPONSE''
       then seq (py_getitem packet ''data'', s) (\<lambda>data s. (Returns (Error (RequestFailed data)), s))
       else seq (py_getitem packet ''data'', s) (\<lambda>data s. (Returns (Data data), s))))))"

text \<open>
  The loop over \<^verbatim>\<open>self._connections.items()\<close>; the body never changes the
  registry, so the loop runs over the entries as they were at its start.
\<close>

fun request_all_loop ::
    "string \<Rightarrow> (string \<times> json) list \<Rightarrow> (json \<times> websocket) list \<Rightarrow> (json \<times> pyval) list \<Rightarrow> server
       \<Rightarrow> (json \<times> pyval) list outcome \<times> server" where
  "request_all_loop route kwargs [] results s = (Returns results, s)"
| "request_all_loop route kwargs ((i, conn) # rest) results s =
     (case request_all_try route kwargs i conn s of
        (Returns v, s') \<Rightarrow> request_all_loop route kwargs rest (dict_set results i v) s'
      | (Raises e, s') \<Rightarrow>
          (if e = ConnectionClosedOK
           then request_all_loop route kwargs rest
                  (dict_set results i (Error (RequestFailed (JStr ''Connection Closed'')))) s'
           else (Raises e, s'))
      | (Hangs, s') \<Rightarrow> (Hangs, s'))"

definition request_all ::
    "string \<Rightarrow> (string \<times> json) list \<Rightarrow> server \<Rightarrow> (json \<times> pyval) list outcome \<times> server" where
  "request_all route kwargs s = request_all_loop route kwargs (connections s) [] s"

section \<open>The handshake\<close>

text \<open>The body of the \<^verbatim>\<open>try\<close> of \<^verbatim>\<open>parse_identify\<close>.\<close>

definition parse_identify_try :: "json \<Rightarrow> websocket \<Rightarrow> server \<Rightarrow> json outcome \<times> server" where
  "parse_identify_try packet websocket s =
     seq (py_get packet ''identifier'', s) (\<lambda>identifier s.
     seq (py_getitem packet ''type'', s) (\<lambda>ws_type s.
       if ws_type \<noteq> JStr ''IDENTIFY'' then
         seq (socket_close websocket 4101 (Fmt ''Expected IDENTIFY, received '' ws_type) s) (\<lambda>_ s.
           (Raises (BaseZonisException
                      (Fmt ''Unexpected ws response type, expected IDENTIFY, received '' ws_type) None), s))
       else
         seq (py_getitem packet ''data'', s) (\<lambda>data s.
         seq (py_getitem data ''secret_key'', s) (\<lambda>secret s.
           if secret \<noteq> JStr (secret_key s) then
             seq (socket_close websocket 4100 (Lit ''Invalid secret key.'') s) (\<lambda>_ s.
               (Raises (BaseZonisException
                          (Lit ''Client attempted to connect with an incorrect secret key.'') None), s))
           else
             seq (py_getitem packet ''data'', s) (\<lambda>data s.
             seq (py_get data ''override_key'', s) (\<lambda>override s.
             seq (py_contains identifier (connections s), s) (\<lambda>present s.
               if present \<and> (\<not> truthy override \<or> override \<noteq> JStr (override_key s)) then
                 seq (socket_close websocket 4102 (Lit ''Duplicate identifier on IDENTIFY'') s) (\<lambda>_ s.
                   (Raises (DuplicateConnection ''Identify failed.''), s))
               else
                 seq (server_send (json_dumps (Packet identifier ''IDENTIFY'' JNull)) websocket
                        (s\<lparr>connections := dict_set (connections s) identifier websocket\<rparr>)) (\<lambda>_ s.
                   (Returns identifier, s)))))))))"

text \<open>
  \<^verbatim>\<open>parse_identify\<close>: whatever the body raises is caught by
  \<^verbatim>\<open>except Exception\<close> and raised again inside a \<^verbatim>\<open>BaseZonisException\<close>.
\<close>

definition parse_identify :: "json \<Rightarrow> websocket \<Rightarrow> server \<Rightarrow> json outcome \<times> server" where
  "parse_identify packet websocket s =
     (case parse_identify_try packet websocket s of
        (Raises e, s') \<Rightarrow> (Raises (BaseZonisException (Lit ''Identify failed'') (Some e)), s')
      | r \<Rightarrow> r)"

section \<open>Example states\<close>

text \<open>A connection on which nothing has happened and nothing arrives.\<close>

definition idle :: socket where
  "idle = \<lparr>sent = [], inbox = [], send_fault = None, closed = []\<rparr>"

text \<open>A server with one client, \<open>A\<close>, registered on connection 0.\<close>

definition srv0 :: server where
  "srv0 = (Server_init False (Some ''ovr'') ''s3cret'' ''tok'' (\<lambda>_. idle))
            \<lparr>connections := [(JStr ''A'', 0)]\<rparr>"

text \<open>The same server constructed with \<^verbatim>\<open>override_key=""\<close>.\<close>

definition srv_empty_override :: server where
  "srv_empty_override = (Server_init False (Some []) ''s3cret'' ''tok'' (\<lambda>_. idle))
            \<lparr>connections := [(JStr ''A'', 0)]\<rparr>"

text \<open>The client \<open>A\<close> is about to answer \<open>pong\<close>.\<close>

definition srv_pong :: server where
  "srv_pong = srv0\<lparr>heap := (\<lambda>_. idle)
      (0 := idle\<lparr>inbox := [Deliver (json_dumps (Packet (JStr ''A'') ''RESPONSE'' (JStr ''pong'')))]\<rparr>)\<rparr>"

text \<open>
  A server on the framework's sockets with two clients: the connection of \<open>A\<close> is
  gone, \<open>B\<close> is about to answer \<open>pong\<close>.
\<close>

definition srv_fastapi :: server where
  "srv_fastapi = (Server_init True (Some ''ovr'') ''s3cret'' ''tok''
       ((\<lambda>_. idle)
         (0 := idle\<lparr>inbox := [Fault WebSocketDisconnect]\<rparr>,
          1 := idle\<lparr>inbox := [Deliver (json_dumps (Packet (JStr ''B'') ''RESPONSE'' (JStr ''pong'')))]\<rparr>)))
     \<lparr>connections := [(JStr ''A'', 0), (JStr ''B'', 1)]\<rparr>"

text \<open>
  A server on plain sockets with two clients: the connection of \<open>A\<close> was closed
  normally, \<open>B\<close> is about to answer \<open>pong\<close>.
\<close>

definition srv_closed_ok :: server where
  "srv_closed_ok = (Server_init False (Some ''ovr'') ''s3cret'' ''tok''
       ((\<lambda>_. idle)
         (0 := idle\<lparr>inbox := [Fault ConnectionClosedOK]\<rparr>,
          1 := idle\<lparr>inbox := [Deliver (json_dumps (Packet (JStr ''B'') ''RESPONSE'' (JStr ''pong'')))]\<rparr>)))
     \<lparr>connections := [(JStr ''A'', 0), (JStr ''B'', 1)]\<rparr>"

text \<open>An IDENTIFY packet as a client sends it.\<close>

definition identify :: "string \<Rightarrow> (string \<times> json) list \<Rightarrow> json" where
  "identify i kvs = Packet (JStr i) ''IDENTIFY'' (JObj kvs)"

text \<open>IDENTIFY packets for the identifier \<open>A\<close>, with the right secret key.\<close>

definition no_override :: json where
  "no_override = identify ''A'' [(''secret_key'', JStr ''s3cret'')]"

definition empty_override :: json where
  "empty_override = identify ''A'' [(''secret_key'', JStr ''s3cret''), (''override_key'', JStr [])]"

definition right_override :: json where
  "right_override = identify ''A'' [(''secret_key'', JStr ''s3cret''), (''override_key'', JStr ''ovr'')]"

definition wrong_override :: json where
  "wrong_override = identify ''A'' [(''secret_key'', JStr ''s3cret''), (''override_key'', JStr ''nope'')]"

text \<open>A packet of type IDENTIFY without its \<open>data\<close> field.\<close>

definition no_data :: json where
  "no_data = JObj [(''identifier'', JStr ''B''), (''type'', JStr ''IDENTIFY'')]"

section \<open>Basic facts\<close>

lemmas example_defs = srv0_def srv_empty_override_def Server_init_def idle_def identify_def Packet_def
  no_override_def empty_override_def right_override_def wrong_override_def no_data_def

lemmas run_defs = parse_identify_def parse_identify_try_def socket_close_def py_contains_def
  server_send_def socket_send_def json_dumps_def

lemma seq_simps [simp]:
  "seq (Returns x, s) f = f x s"
  "seq (Raises e, s) f = (Raises e, s)"
  "seq (Hangs, s) f = (Hangs, s)"
  by (simp_all add: seq_def)

lemma py_eq_hashable: "py_eq a b \<Longrightarrow> hashable a \<and> hashable b"
  by (induction a b rule: py_eq.induct) simp_all

lemma py_eq_refl: "hashable k \<Longrightarrow> py_eq k k"
  by (cases k) simp_all

lemma py_eq_JStr [simp]: "py_eq k (JStr i) = (k = JStr i)"
  by (cases k) auto

lemma dict_get_dict_set_same: "hashable k \<Longrightarrow> dict_get (dict_set d k v) k = Some v"
  by (induction d) (auto simp: py_eq_refl)

lemma dict_get_dict_pop_same: "dict_get (dict_pop d k) k = None"
  by (induction d) (auto simp: dict_pop_def)

lemma dict_pop_absent: "dict_get d k = None \<Longrightarrow> dict_pop d k = d"
  by (induction d) (auto simp: dict_pop_def split: if_splits)

lemma dict_get_dict_pop_other:
  "i \<noteq> j \<Longrightarrow> dict_get (dict_pop d (JStr i)) (JStr j) = dict_get d (JStr j)"
  by (induction d) (auto simp: dict_pop_def)

lemma dict_get_Some_hashable: "dict_get d k = Some v \<Longrightarrow> hashable k"
  by (induction d) (auto split: if_splits dest: py_eq_hashable)

lemma py_getitem_Returns:
  "py_getitem p k = Returns v \<Longrightarrow> \<exists>kvs. p = JObj kvs \<and> map_of kvs k = Some v"
  by (cases p) (auto split: option.splits)

section \<open>The four ways through the handshake\<close>

lemma parse_identify_wrong_type:
  assumes "py_getitem packet ''type'' = Returns t" and "t \<noteq> JStr ''IDENTIFY''"
  shows "parse_identify packet ws s =
    (Raises (BaseZonisException (Lit ''Identify failed'')
       (Some (BaseZonisException
          (Fmt ''Unexpected ws response type, expected IDENTIFY, received '' t) None))),
     s\<lparr>heap := (heap s)(ws := (heap s ws)\<lparr>closed := closed (heap s ws) @
          [(4101, Fmt ''Expected IDENTIFY, received '' t)]\<rparr>)\<rparr>)"
proof -
  from assms(1) obtain kvs where p: "packet = JObj kvs" "map_of kvs ''type'' = Some t"
    by (auto dest: py_getitem_Returns)
  show ?thesis
    using assms(2) by (simp add: parse_identify_def parse_identify_try_def p socket_close_def)
qed

lemma parse_identify_wrong_secret:
  assumes "py_getitem packet ''type'' = Returns (JStr ''IDENTIFY'')"
    and "py_getitem packet ''data'' = Returns data"
    and "py_getitem data ''secret_key'' = Returns k"
    and "k \<noteq> JStr (secret_key s)"
  shows "parse_identify packet ws s =
    (Raises (BaseZonisException (Lit ''Identify failed'')
       (Some (BaseZonisException
          (Lit ''Client attempted to connect with an incorrect secret key.'') None))),
     s\<lparr>heap := (heap s)(ws := (heap s ws)\<lparr>closed := closed (heap s ws) @
          [(4100, Lit ''Invalid secret key.'')]\<rparr>)\<rparr>)"
proof -
  from assms(1) obtain kvs where p: "packet = JObj kvs" "map_of kvs ''type'' = Some (JStr ''IDENTIFY'')"
    by (auto dest: py_getitem_Returns)
  from assms(2) p have d: "map_of kvs ''data'' = Some data"
    by (auto split: option.splits)
  from assms(3) obtain dkvs where dd: "data = JObj dkvs" "map_of dkvs ''secret_key'' = Some k"
    by (auto dest: py_getitem_Returns)
  show ?thesis
    using assms(4) by (simp add: parse_identify_def parse_identify_try_def p d dd socket_close_def)
qed

lemma parse_identify_duplicate:
  assumes "py_get packet ''identifier'' = Returns identifier"
    and "py_getitem packet ''type'' = Returns (JStr ''IDENTIFY'')"
    and "py_getitem packet ''data'' = Returns data"
    and "py_getitem data ''secret_key'' = Returns (JStr (secret_key s))"
    and "py_get data ''override_key'' = Returns ov"
    and "dict_get (connections s) identifier = Some old"
    and "\<not> truthy ov \<or> ov \<noteq> JStr (override_key s)"
  shows "parse_identify packet ws s =
    (Raises (BaseZonisException (Lit ''Identify failed'')
       (Some (DuplicateConnection ''Identify failed.''))),
     s\<lparr>heap := (heap s)(ws := (heap s ws)\<lparr>closed := closed (heap s ws) @
          [(4102, Lit ''Duplicate identifier on IDENTIFY'')]\<rparr>)\<rparr>)"
proof -
  have h: "hashable identifier"
    using assms(6) by (rule dict_get_Some_hashable)
  show ?thesis
    using assms h
    by (auto simp: parse_identify_def parse_identify_try_def socket_close_def py_contains_def)
qed

lemma parse_identify_try_accept:
  assumes "py_get packet ''identifier'' = Returns identifier"
    and "py_getitem packet ''type'' = Returns (JStr ''IDENTIFY'')"
    and "py_getitem packet ''data'' = Returns data"
    and "py_getitem data ''secret_key'' = Returns (JStr (secret_key s))"
    and "py_get data ''override_key'' = Returns ov"
    and "hashable identifier"
    and "dict_get (connections s) identifier = None \<or> (truthy ov \<and> ov = JStr (override_key s))"
  shows "parse_identify_try packet ws s =
     seq (server_send (json_dumps (Packet identifier ''IDENTIFY'' JNull)) ws
            (s\<lparr>connections := dict_set (connections s) identifier ws\<rparr>))
         (\<lambda>_ s. (Returns identifier, s))"
  using assms
  by (auto simp: parse_identify_try_def py_contains_def)

lemma py_get_of_dict: "py_getitem d k = Returns v \<Longrightarrow> \<exists>w. py_get d k' = Returns w"
  by (cases d) auto

lemma server_send_connections: "connections (snd (server_send c ws s)) = connections s"
  by (simp add: server_send_def socket_send_def split: option.splits)

lemma server_send_ok:
  "send_fault (heap s ws) = None \<Longrightarrow>
   server_send c ws s =
     (Returns (), s\<lparr>heap := (heap s)(ws := (heap s ws)\<lparr>sent := sent (heap s ws) @ [c]\<rparr>)\<rparr>)"
  by (simp add: server_send_def socket_send_def)

lemma server_send_fault:
  "send_fault (heap s ws) = Some e \<Longrightarrow> server_send c ws s = (Raises e, s)"
  by (simp add: server_send_def socket_send_def)

lemma parse_identify_accept_connections:
  assumes "py_get packet ''identifier'' = Returns identifier"
    and "py_getitem packet ''type'' = Returns (JStr ''IDENTIFY'')"
    and "py_getitem packet ''data'' = Returns data"
    and "py_getitem data ''secret_key'' = Returns (JStr (secret_key s))"
    and "py_get data ''override_key'' = Returns ov"
    and "hashable identifier"
    and "dict_get (connections s) identifier = None \<or> (truthy ov \<and> ov = JStr (override_key s))"
  shows "connections (snd (parse_identify packet ws s)) = dict_set (connections s) identifier ws"
proof (cases "send_fault (heap s ws)")
  case None
  then show ?thesis
    by (simp add: parse_identify_def parse_identify_try_accept [OF assms] server_send_ok)
next
  case (Some e)
  then show ?thesis
    by (simp add: parse_identify_def parse_identify_try_accept [OF assms] server_send_fault)
qed

lemma parse_identify_accept_ok:
  assumes "py_get packet ''identifier'' = Returns identifier"
    and "py_getitem packet ''type'' = Returns (JStr ''IDENTIFY'')"
    and "py_getitem packet ''data'' = Returns data"
    and "py_getitem data ''secret_key'' = Returns (JStr (secret_key s))"
    and "py_get data ''override_key'' = Returns ov"
    and "hashable identifier"
    and "dict_get (connections s) identifier = None \<or> (truthy ov \<and> ov = JStr (override_key s))"
    and "send_fault (heap s ws) = None"
  shows "parse_identify packet ws s =
     (Returns identifier,
      s\<lparr>connections := dict_set (connections s) identifier ws,
        heap := (heap s)(ws := (heap s ws)\<lparr>sent := sent (heap s ws) @
                  [json_dumps (Packet identifier ''IDENTIFY'' JNull)]\<rparr>)\<rparr>)"
  using assms(8)
  by (simp add: parse_identify_def parse_identify_try_accept [OF assms(1-7)] server_send_ok)

section \<open>Requests to clients that are not registered\<close>

text \<open>
  C8: a request to an identifier that has no entry in the registry raises
  \<open>UnknownClient\<close> and leaves the whole state as it was: nothing is sent on any
  connection and the registry is unchanged.
\<close>

theorem request_unknown_client:
  "dict_get (connections s) (JStr i) = None \<Longrightarrow>
   request route i kwargs s = (Raises UnknownClient, s)"
  by (simp add: request_def)

theorem request_unknown_client_witness:
  "dict_get (connections srv0) (JStr ''B'') = None \<and>
   request ''ping'' ''B'' [] srv0 = (Raises UnknownClient, srv0)"
proof -
  have h: "dict_get (connections srv0) (JStr ''B'') = None"
    by (simp add: srv0_def Server_init_def)
  show ?thesis
    using h request_unknown_client [OF h, of "''ping''" "[]"] by simp
qed

section \<open>Administrative removal\<close>

text \<open>
  C9: \<open>disconnect\<close> removes the entry of the identifier and no other, does nothing when
  the identifier is absent, is idempotent and leaves every connection object as it was;
  a request to the identifier afterwards raises \<open>UnknownClient\<close>, whatever the state
  of the connection.
\<close>

theorem disconnect_then_unknown_client:
  "dict_get (connections (disconnect i s)) (JStr i) = None
   \<and> (\<forall>j. j \<noteq> i \<longrightarrow>
         dict_get (connections (disconnect i s)) (JStr j) = dict_get (connections s) (JStr j))
   \<and> (dict_get (connections s) (JStr i) = None \<longrightarrow> disconnect i s = s)
   \<and> disconnect i (disconnect i s) = disconnect i s
   \<and> heap (disconnect i s) = heap s
   \<and> request route i kwargs (disconnect i s) = (Raises UnknownClient, disconnect i s)"
proof -
  have gone: "dict_get (connections (disconnect i s)) (JStr i) = None"
    by (simp add: disconnect_def dict_get_dict_pop_same)
  have others: "\<forall>j. j \<noteq> i \<longrightarrow>
      dict_get (connections (disconnect i s)) (JStr j) = dict_get (connections s) (JStr j)"
    by (simp add: disconnect_def dict_get_dict_pop_other)
  have noop: "dict_get (connections s) (JStr i) = None \<longrightarrow> disconnect i s = s"
    by (simp add: disconnect_def dict_pop_absent)
  have idem: "disconnect i (disconnect i s) = disconnect i s"
    using gone by (simp add: disconnect_def dict_pop_absent)
  have conn: "heap (disconnect i s) = heap s"
    by (simp add: disconnect_def)
  have req: "request route i kwargs (disconnect i s) = (Raises UnknownClient, disconnect i s)"
    using gone by (simp add: request_def)
  from gone others noop idem conn req show ?thesis by blast
qed

theorem disconnect_then_unknown_client_witness:
  "dict_get (connections srv0) (JStr ''A'') = Some 0
   \<and> dict_get (connections (disconnect ''A'' srv0)) (JStr ''A'') = None
   \<and> closed (heap (disconnect ''A'' srv0) 0) = []
   \<and> request ''ping'' ''A'' [] (disconnect ''A'' srv0) = (Raises UnknownClient, disconnect ''A'' srv0)
   \<and> ''A'' \<noteq> ''B''
   \<and> dict_get (connections (disconnect ''B'' srv0)) (JStr ''A'') = Some 0
   \<and> dict_get (connections srv0) (JStr ''B'') = None
   \<and> disconnect ''B'' srv0 = srv0"
  using disconnect_then_unknown_client [of "''A''" srv0 "''ping''" "[]"]
    disconnect_then_unknown_client [of "''B''" srv0 "''ping''" "[]"]
  by (simp add: srv0_def Server_init_def idle_def)

section \<open>A wrong secret key, and a new client\<close>

text \<open>
  C5: an IDENTIFY packet whose \<open>secret_key\<close> is not the configured one leaves the
  registry as it was and closes the connection with code 4100 (invalid secret key);
  the handshake fails and nothing is sent.
\<close>

theorem identify_wrong_secret_key:
  assumes "py_getitem packet ''type'' = Returns (JStr ''IDENTIFY'')"
    and "py_getitem packet ''data'' = Returns data"
    and "py_getitem data ''secret_key'' = Returns k"
    and "k \<noteq> JStr (secret_key s)"
  shows "fst (parse_identify packet ws s) =
        Raises (BaseZonisException (Lit ''Identify failed'')
          (Some (BaseZonisException
             (Lit ''Client attempted to connect with an incorrect secret key.'') None)))
    \<and> connections (snd (parse_identify packet ws s)) = connections s
    \<and> closed (heap (snd (parse_identify packet ws s)) ws) =
        closed (heap s ws) @ [(4100, Lit ''Invalid secret key.'')]
    \<and> sent (heap (snd (parse_identify packet ws s)) ws) = sent (heap s ws)"
  by (simp add: parse_identify_wrong_secret [OF assms])

theorem identify_wrong_secret_key_witness:
  "py_getitem (identify ''B'' [(''secret_key'', JStr ''guess'')]) ''type'' = Returns (JStr ''IDENTIFY'')
   \<and> py_getitem (identify ''B'' [(''secret_key'', JStr ''guess'')]) ''data''
        = Returns (JObj [(''secret_key'', JStr ''guess'')])
   \<and> py_getitem (JObj [(''secret_key'', JStr ''guess'')]) ''secret_key'' = Returns (JStr ''guess'')
   \<and> JStr ''guess'' \<noteq> JStr (secret_key srv0)
   \<and> connections (snd (parse_identify (identify ''B'' [(''secret_key'', JStr ''guess'')]) 1 srv0))
        = [(JStr ''A'', 0)]
   \<and> closed (heap (snd (parse_identify (identify ''B'' [(''secret_key'', JStr ''guess'')]) 1 srv0)) 1)
        = [(4100, Lit ''Invalid secret key.'')]"
proof -
  have t: "py_getitem (identify ''B'' [(''secret_key'', JStr ''guess'')]) ''type'' = Returns (JStr ''IDENTIFY'')"
    by (simp add: identify_def Packet_def)
  have d: "py_getitem (identify ''B'' [(''secret_key'', JStr ''guess'')]) ''data''
        = Returns (JObj [(''secret_key'', JStr ''guess'')])"
    by (simp add: identify_def Packet_def)
  have k: "py_getitem (JObj [(''secret_key'', JStr ''guess'')]) ''secret_key'' = Returns (JStr ''guess'')"
    by simp
  have n: "JStr ''guess'' \<noteq> JStr (secret_key srv0)"
    by (simp add: srv0_def Server_init_def)
  show ?thesis
    using t d k n identify_wrong_secret_key [OF t d k n, of 1]
    by (simp add: srv0_def Server_init_def idle_def)
qed

text \<open>
  C6: an IDENTIFY packet with the configured \<open>secret_key\<close> whose identifier has no
  entry in the registry, on a connection that accepts the send: the handshake returns
  the identifier, the registry maps it to this connection, and the acknowledgment
  (an IDENTIFY packet with \<open>data = null\<close>) is sent on this connection.
\<close>

theorem identify_new_client:
  assumes "py_get packet ''identifier'' = Returns identifier"
    and "py_getitem packet ''type'' = Returns (JStr ''IDENTIFY'')"
    and "py_getitem packet ''data'' = Returns data"
    and "py_getitem data ''secret_key'' = Returns (JStr (secret_key s))"
    and "hashable identifier"
    and "dict_get (connections s) identifier = None"
    and "send_fault (heap s ws) = None"
  shows "fst (parse_identify packet ws s) = Returns identifier
    \<and> dict_get (connections (snd (parse_identify packet ws s))) identifier = Some ws
    \<and> sent (heap (snd (parse_identify packet ws s)) ws) =
        sent (heap s ws) @ [json_dumps (Packet identifier ''IDENTIFY'' JNull)]"
proof -
  from assms(4) obtain ov where ov: "py_get data ''override_key'' = Returns ov"
    by (blast dest: py_get_of_dict)
  have acc: "dict_get (connections s) identifier = None \<or> (truthy ov \<and> ov = JStr (override_key s))"
    using assms(6) by simp
  show ?thesis
    by (simp add: parse_identify_accept_ok [OF assms(1-4) ov assms(5) acc assms(7)]
          dict_get_dict_set_same [OF assms(5)])
qed

theorem identify_new_client_witness:
  "py_get (identify ''B'' [(''secret_key'', JStr ''s3cret'')]) ''identifier'' = Returns (JStr ''B'')
   \<and> py_getitem (identify ''B'' [(''secret_key'', JStr ''s3cret'')]) ''type'' = Returns (JStr ''IDENTIFY'')
   \<and> py_getitem (identify ''B'' [(''secret_key'', JStr ''s3cret'')]) ''data''
        = Returns (JObj [(''secret_key'', JStr ''s3cret'')])
   \<and> py_getitem (JObj [(''secret_key'', JStr ''s3cret'')]) ''secret_key'' = Returns (JStr (secret_key srv0))
   \<and> hashable (JStr ''B'')
   \<and> dict_get (connections srv0) (JStr ''B'') = None
   \<and> send_fault (heap srv0 1) = None
   \<and> fst (parse_identify (identify ''B'' [(''secret_key'', JStr ''s3cret'')]) 1 srv0) = Returns (JStr ''B'')
   \<and> dict_get (connections (snd (parse_identify (identify ''B'' [(''secret_key'', JStr ''s3cret'')]) 1 srv0)))
        (JStr ''B'') = Some 1
   \<and> sent (heap (snd (parse_identify (identify ''B'' [(''secret_key'', JStr ''s3cret'')]) 1 srv0)) 1)
        = [Dumped (JObj [(''identifier'', JStr ''B''), (''type'', JStr ''IDENTIFY''), (''data'', JNull)])]"
proof -
  have i: "py_get (identify ''B'' [(''secret_key'', JStr ''s3cret'')]) ''identifier'' = Returns (JStr ''B'')"
    by (simp add: identify_def Packet_def)
  have t: "py_getitem (identify ''B'' [(''secret_key'', JStr ''s3cret'')]) ''type'' = Returns (JStr ''IDENTIFY'')"
    by (simp add: identify_def Packet_def)
  have d: "py_getitem (identify ''B'' [(''secret_key'', JStr ''s3cret'')]) ''data''
        = Returns (JObj [(''secret_key'', JStr ''s3cret'')])"
    by (simp add: identify_def Packet_def)
  have k: "py_getitem (JObj [(''secret_key'', JStr ''s3cret'')]) ''secret_key'' = Returns (JStr (secret_key srv0))"
    by (simp add: srv0_def Server_init_def)
  have h: "hashable (JStr ''B'')"
    by simp
  have a: "dict_get (connections srv0) (JStr ''B'') = None"
    by (simp add: srv0_def Server_init_def)
  have f: "send_fault (heap srv0 1) = None"
    by (simp add: srv0_def Server_init_def idle_def)
  show ?thesis
    using i t d k h a f identify_new_client [OF i t d k h a f]
    by (simp add: srv0_def Server_init_def idle_def json_dumps_def Packet_def)
qed

section \<open>The outcome of a request\<close>

text \<open>
  C7: a request to a registered client sends the REQUEST packet on the client's
  connection and takes the next packet received there as the answer: a
  \<open>FAILURE_RESPONSE\<close> makes the call raise \<open>RequestFailed\<close> with the packet's
  data, any other type makes it return the packet's data.
\<close>

theorem request_outcome:
  assumes "dict_get (connections s) (JStr i) = Some conn"
    and "send_fault (heap s conn) = None"
    and "inbox (heap s conn) = Deliver (json_dumps packet) # rest"
    and "py_getitem packet ''type'' = Returns t"
    and "py_getitem packet ''data'' = Returns d"
  shows "request route i kwargs s =
     (if t = JStr ''FAILURE_RESPONSE'' then Raises (RequestFailed d) else Returns d,
      s\<lparr>heap := (heap s)(conn := (heap s conn)
           \<lparr>sent := sent (heap s conn) @
              [json_dumps (Packet (JStr i) ''REQUEST'' (RequestPacket route kwargs))],
            inbox := rest\<rparr>)\<rparr>)"
  using assms
  by (simp add: request_def server_send_ok server_recv_def socket_recv_def json_dumps_def)

theorem request_outcome_witness:
  "dict_get (connections srv_pong) (JStr ''A'') = Some 0
   \<and> send_fault (heap srv_pong 0) = None
   \<and> inbox (heap srv_pong 0) = Deliver (json_dumps (Packet (JStr ''A'') ''RESPONSE'' (JStr ''pong''))) # []
   \<and> py_getitem (Packet (JStr ''A'') ''RESPONSE'' (JStr ''pong'')) ''type'' = Returns (JStr ''RESPONSE'')
   \<and> py_getitem (Packet (JStr ''A'') ''RESPONSE'' (JStr ''pong'')) ''data'' = Returns (JStr ''pong'')
   \<and> fst (request ''ping'' ''A'' [] srv_pong) = Returns (JStr ''pong'')"
proof -
  have c: "dict_get (connections srv_pong) (JStr ''A'') = Some 0"
    by (simp add: srv_pong_def srv0_def Server_init_def)
  have f: "send_fault (heap srv_pong 0) = None"
    by (simp add: srv_pong_def idle_def)
  have b: "inbox (heap srv_pong 0) = Deliver (json_dumps (Packet (JStr ''A'') ''RESPONSE'' (JStr ''pong''))) # []"
    by (simp add: srv_pong_def)
  have t: "py_getitem (Packet (JStr ''A'') ''RESPONSE'' (JStr ''pong'')) ''type'' = Returns (JStr ''RESPONSE'')"
    by (simp add: Packet_def)
  have d: "py_getitem (Packet (JStr ''A'') ''RESPONSE'' (JStr ''pong'')) ''data'' = Returns (JStr ''pong'')"
    by (simp add: Packet_def)
  show ?thesis
    using c f b t d request_outcome [OF c f b t d, of "''ping''" "[]"] by simp
qed

section \<open>A second IDENTIFY for a registered identifier\<close>

text \<open>
  C1, as stated, fails in two places. A packet that carries the configured override key is
  still rejected when that key is the empty string, and the entry keeps pointing to the old
  connection; and what the handshake raises on a rejection is not
  \<open>DuplicateConnection\<close> but the generic exception with \<open>DuplicateConnection\<close> as
  its cause.
\<close>

theorem identify_registered_counterexample:
  "py_get (JObj [(''secret_key'', JStr ''s3cret''), (''override_key'', JStr [])]) ''override_key''
      = Returns (JStr (override_key srv_empty_override))
   \<and> dict_get (connections srv_empty_override) (JStr ''A'') = Some 0
   \<and> dict_get (connections (snd (parse_identify empty_override 1 srv_empty_override))) (JStr ''A'') = Some 0
   \<and> fst (parse_identify no_override 1 srv0) \<noteq> Raises (DuplicateConnection ''Identify failed.'')
   \<and> fst (parse_identify no_override 1 srv0) =
        Raises (BaseZonisException (Lit ''Identify failed'')
                  (Some (DuplicateConnection ''Identify failed.'')))"
  by (simp add: example_defs run_defs)

text \<open>
  C1, amended: for an IDENTIFY packet with the configured secret key whose identifier is in
  the registry, if the packet carries no override key, one that differs from the configured
  one, or an empty one, then the registry is unchanged, the new connection is closed with
  code 4102 (duplicate identifier) and the handshake raises the generic exception caused by
  \<open>DuplicateConnection\<close>; if it carries the configured, non-empty override key, the
  entry of the identifier points to the new connection afterwards.
\<close>

theorem identify_registered_identifier:
  assumes "py_get packet ''identifier'' = Returns identifier"
    and "py_getitem packet ''type'' = Returns (JStr ''IDENTIFY'')"
    and "py_getitem packet ''data'' = Returns data"
    and "py_getitem data ''secret_key'' = Returns (JStr (secret_key s))"
    and "py_get data ''override_key'' = Returns ov"
    and "dict_get (connections s) identifier = Some old"
  shows "(ov \<noteq> JStr (override_key s) \<or> override_key s = [] \<longrightarrow>
            parse_identify packet ws s =
              (Raises (BaseZonisException (Lit ''Identify failed'')
                         (Some (DuplicateConnection ''Identify failed.''))),
               s\<lparr>heap := (heap s)(ws := (heap s ws)\<lparr>closed := closed (heap s ws) @
                    [(4102, Lit ''Duplicate identifier on IDENTIFY'')]\<rparr>)\<rparr>))
    \<and> (ov = JStr (override_key s) \<and> override_key s \<noteq> [] \<longrightarrow>
            dict_get (connections (snd (parse_identify packet ws s))) identifier = Some ws)"
proof (intro conjI impI)
  assume "ov \<noteq> JStr (override_key s) \<or> override_key s = []"
  then have bad: "\<not> truthy ov \<or> ov \<noteq> JStr (override_key s)"
    by (cases "ov = JStr (override_key s)") auto
  show "parse_identify packet ws s =
      (Raises (BaseZonisException (Lit ''Identify failed'')
                 (Some (DuplicateConnection ''Identify failed.''))),
       s\<lparr>heap := (heap s)(ws := (heap s ws)\<lparr>closed := closed (heap s ws) @
            [(4102, Lit ''Duplicate identifier on IDENTIFY'')]\<rparr>)\<rparr>)"
    by (rule parse_identify_duplicate [OF assms bad])
next
  assume "ov = JStr (override_key s) \<and> override_key s \<noteq> []"
  then have good: "dict_get (connections s) identifier = None \<or> (truthy ov \<and> ov = JStr (override_key s))"
    by auto
  have h: "hashable identifier"
    using assms(6) by (rule dict_get_Some_hashable)
  show "dict_get (connections (snd (parse_identify packet ws s))) identifier = Some ws"
    by (simp add: parse_identify_accept_connections [OF assms(1-5) h good] dict_get_dict_set_same [OF h])
qed

theorem identify_registered_identifier_witness:
  "py_get right_override ''identifier'' = Returns (JStr ''A'')
   \<and> py_getitem right_override ''type'' = Returns (JStr ''IDENTIFY'')
   \<and> py_getitem right_override ''data''
        = Returns (JObj [(''secret_key'', JStr ''s3cret''), (''override_key'', JStr ''ovr'')])
   \<and> py_getitem (JObj [(''secret_key'', JStr ''s3cret''), (''override_key'', JStr ''ovr'')]) ''secret_key''
        = Returns (JStr (secret_key srv0))
   \<and> py_get (JObj [(''secret_key'', JStr ''s3cret''), (''override_key'', JStr ''ovr'')]) ''override_key''
        = Returns (JStr ''ovr'')
   \<and> dict_get (connections srv0) (JStr ''A'') = Some 0
   \<and> JStr ''ovr'' = JStr (override_key srv0) \<and> override_key srv0 \<noteq> []
   \<and> dict_get (connections (snd (parse_identify right_override 1 srv0))) (JStr ''A'') = Some 1
   \<and> py_get wrong_override ''identifier'' = Returns (JStr ''A'')
   \<and> py_getitem wrong_override ''type'' = Returns (JStr ''IDENTIFY'')
   \<and> py_getitem wrong_override ''data''
        = Returns (JObj [(''secret_key'', JStr ''s3cret''), (''override_key'', JStr ''nope'')])
   \<and> py_getitem (JObj [(''secret_key'', JStr ''s3cret''), (''override_key'', JStr ''nope'')]) ''secret_key''
        = Returns (JStr (secret_key srv0))
   \<and> py_get (JObj [(''secret_key'', JStr ''s3cret''), (''override_key'', JStr ''nope'')]) ''override_key''
        = Returns (JStr ''nope'')
   \<and> JStr ''nope'' \<noteq> JStr (override_key srv0)
   \<and> connections (snd (parse_identify wrong_override 1 srv0)) = [(JStr ''A'', 0)]
   \<and> closed (heap (snd (parse_identify wrong_override 1 srv0)) 1)
        = [(4102, Lit ''Duplicate identifier on IDENTIFY'')]"
proof -
  have i: "py_get right_override ''identifier'' = Returns (JStr ''A'')"
    by (simp add: example_defs)
  have t: "py_getitem right_override ''type'' = Returns (JStr ''IDENTIFY'')"
    by (simp add: example_defs)
  have d: "py_getitem right_override ''data''
        = Returns (JObj [(''secret_key'', JStr ''s3cret''), (''override_key'', JStr ''ovr'')])"
    by (simp add: example_defs)
  have k: "py_getitem (JObj [(''secret_key'', JStr ''s3cret''), (''override_key'', JStr ''ovr'')]) ''secret_key''
        = Returns (JStr (secret_key srv0))"
    by (simp add: example_defs)
  have v: "py_get (JObj [(''secret_key'', JStr ''s3cret''), (''override_key'', JStr ''ovr'')]) ''override_key''
        = Returns (JStr ''ovr'')"
    by simp
  have r: "dict_get (connections srv0) (JStr ''A'') = Some 0"
    by (simp add: example_defs)
  have i': "py_get wrong_override ''identifier'' = Returns (JStr ''A'')"
    by (simp add: example_defs)
  have t': "py_getitem wrong_override ''type'' = Returns (JStr ''IDENTIFY'')"
    by (simp add: example_defs)
  have d': "py_getitem wrong_override ''data''
        = Returns (JObj [(''secret_key'', JStr ''s3cret''), (''override_key'', JStr ''nope'')])"
    by (simp add: example_defs)
  have k': "py_getitem (JObj [(''secret_key'', JStr ''s3cret''), (''override_key'', JStr ''nope'')]) ''secret_key''
        = Returns (JStr (secret_key srv0))"
    by (simp add: example_defs)
  have v': "py_get (JObj [(''secret_key'', JStr ''s3cret''), (''override_key'', JStr ''nope'')]) ''override_key''
        = Returns (JStr ''nope'')"
    by simp
  have o: "JStr ''ovr'' = JStr (override_key srv0) \<and> override_key srv0 \<noteq> []"
    by (simp add: example_defs)
  have o': "JStr ''nope'' \<noteq> JStr (override_key srv0)"
    by (simp add: example_defs)
  have A: "dict_get (connections (snd (parse_identify right_override 1 srv0))) (JStr ''A'') = Some 1"
    using identify_registered_identifier [OF i t d k v r, of 1] o by blast
  have B: "parse_identify wrong_override 1 srv0 =
      (Raises (BaseZonisException (Lit ''Identify failed'')
                 (Some (DuplicateConnection ''Identify failed.''))),
       srv0\<lparr>heap := (heap srv0)(1 := (heap srv0 1)\<lparr>closed := closed (heap srv0 1) @
            [(4102, Lit ''Duplicate identifier on IDENTIFY'')]\<rparr>)\<rparr>)"
    using identify_registered_identifier [OF i' t' d' k' v' r, of 1] o' by blast
  have C: "connections (snd (parse_identify wrong_override 1 srv0)) = [(JStr ''A'', 0)]"
    by (simp only: B snd_conv) (simp add: srv0_def Server_init_def)
  have D: "closed (heap (snd (parse_identify wrong_override 1 srv0)) 1)
        = [(4102, Lit ''Duplicate identifier on IDENTIFY'')]"
    by (simp only: B snd_conv) (simp add: srv0_def Server_init_def idle_def)
  show ?thesis
    using i t d k v r o A i' t' d' k' v' o' C D by blast
qed

section \<open>An empty override key\<close>

text \<open>
  C10, as stated, fails in the kind of error: with an empty override key in the packet and
  in the configuration, the handshake raises the generic exception, with
  \<open>DuplicateConnection\<close> as its cause, and not \<open>DuplicateConnection\<close> itself.
\<close>

theorem identify_empty_override_counterexample:
  "dict_get (connections srv_empty_override) (JStr ''A'') = Some 0
   \<and> fst (parse_identify empty_override 1 srv_empty_override) \<noteq>
        Raises (DuplicateConnection ''Identify failed.'')
   \<and> fst (parse_identify empty_override 1 srv_empty_override) =
        Raises (BaseZonisException (Lit ''Identify failed'')
                  (Some (DuplicateConnection ''Identify failed.'')))"
  by (simp add: example_defs run_defs)

text \<open>
  C10, amended: an IDENTIFY packet with the configured secret key, a registered identifier
  and the empty string as override key is rejected whatever the configured override key is,
  the empty string included: the handshake raises the generic exception caused by
  \<open>DuplicateConnection\<close>, the registry is unchanged and the new connection is closed
  with code 4102.
\<close>

theorem identify_empty_override:
  assumes "py_get packet ''identifier'' = Returns identifier"
    and "py_getitem packet ''type'' = Returns (JStr ''IDENTIFY'')"
    and "py_getitem packet ''data'' = Returns data"
    and "py_getitem data ''secret_key'' = Returns (JStr (secret_key s))"
    and "py_get data ''override_key'' = Returns (JStr [])"
    and "dict_get (connections s) identifier = Some old"
  shows "fst (parse_identify packet ws s) =
       Raises (BaseZonisException (Lit ''Identify failed'')
                 (Some (DuplicateConnection ''Identify failed.'')))
    \<and> connections (snd (parse_identify packet ws s)) = connections s
    \<and> closed (heap (snd (parse_identify packet ws s)) ws) =
        closed (heap s ws) @ [(4102, Lit ''Duplicate identifier on IDENTIFY'')]"
proof -
  have bad: "\<not> truthy (JStr []) \<or> JStr [] \<noteq> JStr (override_key s)"
    by simp
  show ?thesis
    by (simp add: parse_identify_duplicate [OF assms bad])
qed

theorem identify_empty_override_witness:
  "py_get empty_override ''identifier'' = Returns (JStr ''A'')
   \<and> py_getitem empty_override ''type'' = Returns (JStr ''IDENTIFY'')
   \<and> py_getitem empty_override ''data''
        = Returns (JObj [(''secret_key'', JStr ''s3cret''), (''override_key'', JStr [])])
   \<and> py_getitem (JObj [(''secret_key'', JStr ''s3cret''), (''override_key'', JStr [])]) ''secret_key''
        = Returns (JStr (secret_key srv_empty_override))
   \<and> py_get (JObj [(''secret_key'', JStr ''s3cret''), (''override_key'', JStr [])]) ''override_key''
        = Returns (JStr [])
   \<and> dict_get (connections srv_empty_override) (JStr ''A'') = Some 0
   \<and> override_key srv_empty_override = []
   \<and> connections (snd (parse_identify empty_override 1 srv_empty_override)) = [(JStr ''A'', 0)]
   \<and> closed (heap (snd (parse_identify empty_override 1 srv_empty_override)) 1)
        = [(4102, Lit ''Duplicate identifier on IDENTIFY'')]"
proof -
  have i: "py_get empty_override ''identifier'' = Returns (JStr ''A'')"
    by (simp add: example_defs)
  have t: "py_getitem empty_override ''type'' = Returns (JStr ''IDENTIFY'')"
    by (simp add: example_defs)
  have d: "py_getitem empty_override ''data''
        = Returns (JObj [(''secret_key'', JStr ''s3cret''), (''override_key'', JStr [])])"
    by (simp add: example_defs)
  have k: "py_getitem (JObj [(''secret_key'', JStr ''s3cret''), (''override_key'', JStr [])]) ''secret_key''
        = Returns (JStr (secret_key srv_empty_override))"
    by (simp add: example_defs)
  have v: "py_get (JObj [(''secret_key'', JStr ''s3cret''), (''override_key'', JStr [])]) ''override_key''
        = Returns (JStr [])"
    by simp
  have r: "dict_get (connections srv_empty_override) (JStr ''A'') = Some 0"
    by (simp add: example_defs)
  have e: "override_key srv_empty_override = []"
    by (simp add: example_defs)
  note T = identify_empty_override [OF i t d k v r, of 1]
  have C: "connections (snd (parse_identify empty_override 1 srv_empty_override)) = [(JStr ''A'', 0)]"
    using T by (simp add: srv_empty_override_def Server_init_def)
  have D: "closed (heap (snd (parse_identify empty_override 1 srv_empty_override)) 1)
        = [(4102, Lit ''Duplicate identifier on IDENTIFY'')]"
    using T by (simp add: srv_empty_override_def Server_init_def idle_def)
  show ?thesis
    using i t d k v r e C D by blast
qed

section \<open>The error a failed handshake raises\<close>

text \<open>
  C4, as stated, fails: a duplicate identifier with a wrong override key is one of the three
  expected failures, and the handshake raises the generic exception, not
  \<open>DuplicateConnection\<close>.
\<close>

theorem identify_error_kind_counterexample:
  "dict_get (connections srv0) (JStr ''A'') = Some 0
   \<and> py_getitem wrong_override ''type'' = Returns (JStr ''IDENTIFY'')
   \<and> fst (parse_identify wrong_override 1 srv0) \<noteq> Raises (DuplicateConnection ''Identify failed.'')
   \<and> fst (parse_identify wrong_override 1 srv0) =
        Raises (BaseZonisException (Lit ''Identify failed'')
                  (Some (DuplicateConnection ''Identify failed.'')))"
  by (simp add: example_defs run_defs)

text \<open>
  C4, amended: whatever makes the handshake fail, the caller gets the one generic
  \<open>BaseZonisException\<close> with the message \<open>Identify failed\<close>, and the error raised
  inside is its cause: a \<open>BaseZonisException\<close> naming the received type when the
  type is not IDENTIFY, a \<open>BaseZonisException\<close> for a wrong secret key,
  \<open>DuplicateConnection\<close> for a registered identifier without a valid override key,
  and the unexpected error itself (here: of the lookup of the type) otherwise.
\<close>

theorem identify_failures_wrapped:
  "(\<forall>e. fst (parse_identify packet ws s) = Raises e \<longrightarrow>
        (\<exists>cause. fst (parse_identify_try packet ws s) = Raises cause
           \<and> e = BaseZonisException (Lit ''Identify failed'') (Some cause)))
   \<and> (py_getitem packet ''type'' = Returns t \<and> t \<noteq> JStr ''IDENTIFY'' \<longrightarrow>
        fst (parse_identify packet ws s) =
          Raises (BaseZonisException (Lit ''Identify failed'')
            (Some (BaseZonisException
               (Fmt ''Unexpected ws response type, expected IDENTIFY, received '' t) None))))
   \<and> (py_getitem packet ''type'' = Returns (JStr ''IDENTIFY'')
        \<and> py_getitem packet ''data'' = Returns data
        \<and> py_getitem data ''secret_key'' = Returns k \<and> k \<noteq> JStr (secret_key s) \<longrightarrow>
        fst (parse_identify packet ws s) =
          Raises (BaseZonisException (Lit ''Identify failed'')
            (Some (BaseZonisException
               (Lit ''Client attempted to connect with an incorrect secret key.'') None))))
   \<and> (py_get packet ''identifier'' = Returns identifier
        \<and> py_getitem packet ''type'' = Returns (JStr ''IDENTIFY'')
        \<and> py_getitem packet ''data'' = Returns data
        \<and> py_getitem data ''secret_key'' = Returns (JStr (secret_key s))
        \<and> py_get data ''override_key'' = Returns ov
        \<and> dict_get (connections s) identifier = Some old
        \<and> (\<not> truthy ov \<or> ov \<noteq> JStr (override_key s)) \<longrightarrow>
        fst (parse_identify packet ws s) =
          Raises (BaseZonisException (Lit ''Identify failed'')
            (Some (DuplicateConnection ''Identify failed.''))))
   \<and> (py_get packet ''identifier'' = Returns identifier
        \<and> py_getitem packet ''type'' = Raises x \<longrightarrow>
        fst (parse_identify packet ws s) =
          Raises (BaseZonisException (Lit ''Identify failed'') (Some x)))"
proof (intro conjI allI impI)
  fix e
  assume "fst (parse_identify packet ws s) = Raises e"
  then show "\<exists>cause. fst (parse_identify_try packet ws s) = Raises cause
           \<and> e = BaseZonisException (Lit ''Identify failed'') (Some cause)"
    by (cases "parse_identify_try packet ws s")
       (auto simp: parse_identify_def split: outcome.splits)
next
  assume "py_getitem packet ''type'' = Returns t \<and> t \<noteq> JStr ''IDENTIFY''"
  then show "fst (parse_identify packet ws s) =
          Raises (BaseZonisException (Lit ''Identify failed'')
            (Some (BaseZonisException
               (Fmt ''Unexpected ws response type, expected IDENTIFY, received '' t) None)))"
    by (simp add: parse_identify_wrong_type)
next
  assume "py_getitem packet ''type'' = Returns (JStr ''IDENTIFY'')
        \<and> py_getitem packet ''data'' = Returns data
        \<and> py_getitem data ''secret_key'' = Returns k \<and> k \<noteq> JStr (secret_key s)"
  then show "fst (parse_identify packet ws s) =
          Raises (BaseZonisException (Lit ''Identify failed'')
            (Some (BaseZonisException
               (Lit ''Client attempted to connect with an incorrect secret key.'') None)))"
    by (simp add: parse_identify_wrong_secret)
next
  assume "py_get packet ''identifier'' = Returns identifier
        \<and> py_getitem packet ''type'' = Returns (JStr ''IDENTIFY'')
        \<and> py_getitem packet ''data'' = Returns data
        \<and> py_getitem data ''secret_key'' = Returns (JStr (secret_key s))
        \<and> py_get data ''override_key'' = Returns ov
        \<and> dict_get (connections s) identifier = Some old
        \<and> (\<not> truthy ov \<or> ov \<noteq> JStr (override_key s))"
  then show "fst (parse_identify packet ws s) =
          Raises (BaseZonisException (Lit ''Identify failed'')
            (Some (DuplicateConnection ''Identify failed.'')))"
    by (simp add: parse_identify_duplicate)
next
  assume "py_get packet ''identifier'' = Returns identifier
        \<and> py_getitem packet ''type'' = Raises x"
  then show "fst (parse_identify packet ws s) =
          Raises (BaseZonisException (Lit ''Identify failed'') (Some x))"
    by (simp add: parse_identify_def parse_identify_try_def)
qed


theorem identify_failures_wrapped_witness:
  "py_get wrong_override ''identifier'' = Returns (JStr ''A'')
   \<and> py_getitem wrong_override ''type'' = Returns (JStr ''IDENTIFY'')
   \<and> py_getitem wrong_override ''data''
        = Returns (JObj [(''secret_key'', JStr ''s3cret''), (''override_key'', JStr ''nope'')])
   \<and> py_getitem (JObj [(''secret_key'', JStr ''s3cret''), (''override_key'', JStr ''nope'')]) ''secret_key''
        = Returns (JStr (secret_key srv0))
   \<and> py_get (JObj [(''secret_key'', JStr ''s3cret''), (''override_key'', JStr ''nope'')]) ''override_key''
        = Returns (JStr ''nope'')
   \<and> dict_get (connections srv0) (JStr ''A'') = Some 0
   \<and> JStr ''nope'' \<noteq> JStr (override_key srv0)
   \<and> fst (parse_identify wrong_override 1 srv0) =
      Raises (BaseZonisException (Lit ''Identify failed'')
                (Some (DuplicateConnection ''Identify failed.'')))
   \<and> fst (parse_identify_try wrong_override 1 srv0) = Raises (DuplicateConnection ''Identify failed.'')
   \<and> py_getitem (Packet (JStr ''B'') ''REQUEST'' JNull) ''type'' = Returns (JStr ''REQUEST'')
   \<and> JStr ''REQUEST'' \<noteq> JStr ''IDENTIFY''
   \<and> fst (parse_identify (Packet (JStr ''B'') ''REQUEST'' JNull) 1 srv0) =
        Raises (BaseZonisException (Lit ''Identify failed'')
          (Some (BaseZonisException
             (Fmt ''Unexpected ws response type, expected IDENTIFY, received '' (JStr ''REQUEST'')) None)))
   \<and> py_getitem (identify ''B'' [(''secret_key'', JStr ''guess'')]) ''type'' = Returns (JStr ''IDENTIFY'')
   \<and> py_getitem (identify ''B'' [(''secret_key'', JStr ''guess'')]) ''data''
        = Returns (JObj [(''secret_key'', JStr ''guess'')])
   \<and> py_getitem (JObj [(''secret_key'', JStr ''guess'')]) ''secret_key'' = Returns (JStr ''guess'')
   \<and> JStr ''guess'' \<noteq> JStr (secret_key srv0)
   \<and> fst (parse_identify (identify ''B'' [(''secret_key'', JStr ''guess'')]) 1 srv0) =
        Raises (BaseZonisException (Lit ''Identify failed'')
          (Some (BaseZonisException
             (Lit ''Client attempted to connect with an incorrect secret key.'') None)))
   \<and> py_get no_data ''identifier'' = Returns (JStr ''B'')
   \<and> py_getitem no_data ''type'' = Returns (JStr ''IDENTIFY'')
   \<and> py_getitem no_data ''data'' = Raises (KeyError ''data'')
   \<and> fst (parse_identify no_data 1 srv0) =
        Raises (BaseZonisException (Lit ''Identify failed'') (Some (KeyError ''data'')))
   \<and> py_get (JObj [(''identifier'', JStr ''B'')]) ''identifier'' = Returns (JStr ''B'')
   \<and> py_getitem (JObj [(''identifier'', JStr ''B'')]) ''type'' = Raises (KeyError ''type'')
   \<and> fst (parse_identify (JObj [(''identifier'', JStr ''B'')]) 1 srv0) =
        Raises (BaseZonisException (Lit ''Identify failed'') (Some (KeyError ''type'')))"
proof -
  have i0: "py_get wrong_override ''identifier'' = Returns (JStr ''A'')"
    by (simp add: example_defs)
  have t0: "py_getitem wrong_override ''type'' = Returns (JStr ''IDENTIFY'')"
    by (simp add: example_defs)
  have d0: "py_getitem wrong_override ''data''
        = Returns (JObj [(''secret_key'', JStr ''s3cret''), (''override_key'', JStr ''nope'')])"
    by (simp add: example_defs)
  have k0: "py_getitem (JObj [(''secret_key'', JStr ''s3cret''), (''override_key'', JStr ''nope'')]) ''secret_key''
        = Returns (JStr (secret_key srv0))"
    by (simp add: example_defs)
  have v0: "py_get (JObj [(''secret_key'', JStr ''s3cret''), (''override_key'', JStr ''nope'')]) ''override_key''
        = Returns (JStr ''nope'')"
    by simp
  have g0: "dict_get (connections srv0) (JStr ''A'') = Some 0"
    by (simp add: example_defs)
  have o0: "JStr ''nope'' \<noteq> JStr (override_key srv0)"
    by (simp add: example_defs)
  have run: "fst (parse_identify wrong_override 1 srv0) =
      Raises (BaseZonisException (Lit ''Identify failed'')
                (Some (DuplicateConnection ''Identify failed.'')))"
    using identify_failures_wrapped [of wrong_override 1 srv0 _
        "JObj [(''secret_key'', JStr ''s3cret''), (''override_key'', JStr ''nope'')]" _
        "JStr ''A''" "JStr ''nope''" 0] i0 t0 d0 k0 v0 g0 o0
    by blast
  have w: "fst (parse_identify_try wrong_override 1 srv0) = Raises (DuplicateConnection ''Identify failed.'')"
    using identify_failures_wrapped [of wrong_override 1 srv0] run by auto
  have t1: "py_getitem (Packet (JStr ''B'') ''REQUEST'' JNull) ''type'' = Returns (JStr ''REQUEST'')"
    by (simp add: Packet_def)
  have n1: "JStr ''REQUEST'' \<noteq> JStr ''IDENTIFY''"
    by simp
  have r1: "fst (parse_identify (Packet (JStr ''B'') ''REQUEST'' JNull) 1 srv0) =
        Raises (BaseZonisException (Lit ''Identify failed'')
          (Some (BaseZonisException
             (Fmt ''Unexpected ws response type, expected IDENTIFY, received '' (JStr ''REQUEST'')) None)))"
    using identify_failures_wrapped [of "Packet (JStr ''B'') ''REQUEST'' JNull" 1 srv0 "JStr ''REQUEST''"] t1 n1
    by blast
  have t2: "py_getitem (identify ''B'' [(''secret_key'', JStr ''guess'')]) ''type'' = Returns (JStr ''IDENTIFY'')"
    by (simp add: example_defs)
  have d2: "py_getitem (identify ''B'' [(''secret_key'', JStr ''guess'')]) ''data''
        = Returns (JObj [(''secret_key'', JStr ''guess'')])"
    by (simp add: example_defs)
  have k2: "py_getitem (JObj [(''secret_key'', JStr ''guess'')]) ''secret_key'' = Returns (JStr ''guess'')"
    by simp
  have n2: "JStr ''guess'' \<noteq> JStr (secret_key srv0)"
    by (simp add: example_defs)
  have r2: "fst (parse_identify (identify ''B'' [(''secret_key'', JStr ''guess'')]) 1 srv0) =
        Raises (BaseZonisException (Lit ''Identify failed'')
          (Some (BaseZonisException
             (Lit ''Client attempted to connect with an incorrect secret key.'') None)))"
    using identify_failures_wrapped [of "identify ''B'' [(''secret_key'', JStr ''guess'')]" 1 srv0 _
        "JObj [(''secret_key'', JStr ''guess'')]" "JStr ''guess''"] t2 d2 k2 n2
    by blast
  have i3: "py_get no_data ''identifier'' = Returns (JStr ''B'')"
    by (simp add: example_defs)
  have t3: "py_getitem no_data ''type'' = Returns (JStr ''IDENTIFY'')"
    by (simp add: example_defs)
  have d3: "py_getitem no_data ''data'' = Raises (KeyError ''data'')"
    by (simp add: example_defs)
  have r3: "fst (parse_identify no_data 1 srv0) =
        Raises (BaseZonisException (Lit ''Identify failed'') (Some (KeyError ''data'')))"
    by (simp add: example_defs run_defs)
  have i4: "py_get (JObj [(''identifier'', JStr ''B'')]) ''identifier'' = Returns (JStr ''B'')"
    by simp
  have t4: "py_getitem (JObj [(''identifier'', JStr ''B'')]) ''type'' = Raises (KeyError ''type'')"
    by simp
  have r4: "fst (parse_identify (JObj [(''identifier'', JStr ''B'')]) 1 srv0) =
        Raises (BaseZonisException (Lit ''Identify failed'') (Some (KeyError ''type'')))"
    using identify_failures_wrapped [of "JObj [(''identifier'', JStr ''B'')]" 1 srv0 _ _ _
        "JStr ''B''" _ _ "KeyError ''type''"] i4 t4
    by blast
  show ?thesis
    using i0 t0 d0 k0 v0 g0 o0 run w t1 n1 r1 t2 d2 k2 n2 r2 i3 t3 d3 r3 i4 t4 r4 by blast
qed

section \<open>Closing the connection of a failed handshake\<close>

text \<open>
  C3, as stated, fails: a packet of type IDENTIFY without its \<open>data\<close> field makes the
  handshake fail, and no close call is made on the connection.
\<close>

theorem identify_malformed_counterexample:
  "py_getitem no_data ''type'' = Returns (JStr ''IDENTIFY'')
   \<and> py_getitem no_data ''data'' = Raises (KeyError ''data'')
   \<and> fst (parse_identify no_data 1 srv0) =
        Raises (BaseZonisException (Lit ''Identify failed'') (Some (KeyError ''data'')))
   \<and> closed (heap (snd (parse_identify no_data 1 srv0)) 1) = []"
  by (simp add: example_defs run_defs)

text \<open>
  C3, amended: when the handshake fails by one of its three rejections (a first packet whose
  type is not IDENTIFY, a wrong secret key, a registered identifier without a valid override
  key), the connection is closed, with code 4101, 4100 and 4102 respectively, in the state in
  which the error is raised.
\<close>

theorem identify_rejection_closes:
  "(py_getitem packet ''type'' = Returns t \<and> t \<noteq> JStr ''IDENTIFY'' \<longrightarrow>
      (\<exists>e. fst (parse_identify packet ws s) = Raises e)
      \<and> closed (heap (snd (parse_identify packet ws s)) ws) =
          closed (heap s ws) @ [(4101, Fmt ''Expected IDENTIFY, received '' t)])
   \<and> (py_getitem packet ''type'' = Returns (JStr ''IDENTIFY'')
        \<and> py_getitem packet ''data'' = Returns data
        \<and> py_getitem data ''secret_key'' = Returns k \<and> k \<noteq> JStr (secret_key s) \<longrightarrow>
      (\<exists>e. fst (parse_identify packet ws s) = Raises e)
      \<and> closed (heap (snd (parse_identify packet ws s)) ws) =
          closed (heap s ws) @ [(4100, Lit ''Invalid secret key.'')])
   \<and> (py_get packet ''identifier'' = Returns identifier
        \<and> py_getitem packet ''type'' = Returns (JStr ''IDENTIFY'')
        \<and> py_getitem packet ''data'' = Returns data
        \<and> py_getitem data ''secret_key'' = Returns (JStr (secret_key s))
        \<and> py_get data ''override_key'' = Returns ov
        \<and> dict_get (connections s) identifier = Some old
        \<and> (\<not> truthy ov \<or> ov \<noteq> JStr (override_key s)) \<longrightarrow>
      (\<exists>e. fst (parse_identify packet ws s) = Raises e)
      \<and> closed (heap (snd (parse_identify packet ws s)) ws) =
          closed (heap s ws) @ [(4102, Lit ''Duplicate identifier on IDENTIFY'')])"
proof (intro conjI impI)
  assume a: "py_getitem packet ''type'' = Returns t \<and> t \<noteq> JStr ''IDENTIFY''"
  show "\<exists>e. fst (parse_identify packet ws s) = Raises e"
    using a by (simp add: parse_identify_wrong_type)
  show "closed (heap (snd (parse_identify packet ws s)) ws) =
          closed (heap s ws) @ [(4101, Fmt ''Expected IDENTIFY, received '' t)]"
    using a by (simp add: parse_identify_wrong_type)
next
  assume a: "py_getitem packet ''type'' = Returns (JStr ''IDENTIFY'')
        \<and> py_getitem packet ''data'' = Returns data
        \<and> py_getitem data ''secret_key'' = Returns k \<and> k \<noteq> JStr (secret_key s)"
  show "\<exists>e. fst (parse_identify packet ws s) = Raises e"
    using a by (simp add: parse_identify_wrong_secret)
  show "closed (heap (snd (parse_identify packet ws s)) ws) =
          closed (heap s ws) @ [(4100, Lit ''Invalid secret key.'')]"
    using a by (simp add: parse_identify_wrong_secret)
next
  assume a: "py_get packet ''identifier'' = Returns identifier
        \<and> py_getitem packet ''type'' = Returns (JStr ''IDENTIFY'')
        \<and> py_getitem packet ''data'' = Returns data
        \<and> py_getitem data ''secret_key'' = Returns (JStr (secret_key s))
        \<and> py_get data ''override_key'' = Returns ov
        \<and> dict_get (connections s) identifier = Some old
        \<and> (\<not> truthy ov \<or> ov \<noteq> JStr (override_key s))"
  show "\<exists>e. fst (parse_identify packet ws s) = Raises e"
    using a by (simp add: parse_identify_duplicate)
  show "closed (heap (snd (parse_identify packet ws s)) ws) =
          closed (heap s ws) @ [(4102, Lit ''Duplicate identifier on IDENTIFY'')]"
    using a by (simp add: parse_identify_duplicate)
qed

theorem identify_rejection_closes_witness:
  "py_getitem (Packet (JStr ''B'') ''REQUEST'' JNull) ''type'' = Returns (JStr ''REQUEST'')
   \<and> JStr ''REQUEST'' \<noteq> JStr ''IDENTIFY''
   \<and> closed (heap (snd (parse_identify (Packet (JStr ''B'') ''REQUEST'' JNull) 1 srv0)) 1) =
        [(4101, Fmt ''Expected IDENTIFY, received '' (JStr ''REQUEST''))]
   \<and> py_getitem (identify ''B'' [(''secret_key'', JStr ''guess'')]) ''type'' = Returns (JStr ''IDENTIFY'')
   \<and> py_getitem (identify ''B'' [(''secret_key'', JStr ''guess'')]) ''data''
        = Returns (JObj [(''secret_key'', JStr ''guess'')])
   \<and> py_getitem (JObj [(''secret_key'', JStr ''guess'')]) ''secret_key'' = Returns (JStr ''guess'')
   \<and> JStr ''guess'' \<noteq> JStr (secret_key srv0)
   \<and> closed (heap (snd (parse_identify (identify ''B'' [(''secret_key'', JStr ''guess'')]) 1 srv0)) 1) =
        [(4100, Lit ''Invalid secret key.'')]
   \<and> py_get no_override ''identifier'' = Returns (JStr ''A'')
   \<and> py_getitem no_override ''type'' = Returns (JStr ''IDENTIFY'')
   \<and> py_getitem no_override ''data'' = Returns (JObj [(''secret_key'', JStr ''s3cret'')])
   \<and> py_getitem (JObj [(''secret_key'', JStr ''s3cret'')]) ''secret_key'' = Returns (JStr (secret_key srv0))
   \<and> py_get (JObj [(''secret_key'', JStr ''s3cret'')]) ''override_key'' = Returns JNull
   \<and> dict_get (connections srv0) (JStr ''A'') = Some 0
   \<and> \<not> truthy JNull
   \<and> closed (heap (snd (parse_identify no_override 1 srv0)) 1) =
        [(4102, Lit ''Duplicate identifier on IDENTIFY'')]"
proof -
  have c: "closed (heap srv0 1) = []"
    by (simp add: example_defs)
  have t1: "py_getitem (Packet (JStr ''B'') ''REQUEST'' JNull) ''type'' = Returns (JStr ''REQUEST'')"
    by (simp add: Packet_def)
  have n1: "JStr ''REQUEST'' \<noteq> JStr ''IDENTIFY''"
    by simp
  have r1: "closed (heap (snd (parse_identify (Packet (JStr ''B'') ''REQUEST'' JNull) 1 srv0)) 1) =
        closed (heap srv0 1) @ [(4101, Fmt ''Expected IDENTIFY, received '' (JStr ''REQUEST''))]"
    using identify_rejection_closes [of "Packet (JStr ''B'') ''REQUEST'' JNull" "JStr ''REQUEST''" 1 srv0]
      t1 n1 by blast
  have t2: "py_getitem (identify ''B'' [(''secret_key'', JStr ''guess'')]) ''type'' = Returns (JStr ''IDENTIFY'')"
    by (simp add: example_defs)
  have d2: "py_getitem (identify ''B'' [(''secret_key'', JStr ''guess'')]) ''data''
        = Returns (JObj [(''secret_key'', JStr ''guess'')])"
    by (simp add: example_defs)
  have k2: "py_getitem (JObj [(''secret_key'', JStr ''guess'')]) ''secret_key'' = Returns (JStr ''guess'')"
    by simp
  have n2: "JStr ''guess'' \<noteq> JStr (secret_key srv0)"
    by (simp add: example_defs)
  have r2: "closed (heap (snd (parse_identify (identify ''B'' [(''secret_key'', JStr ''guess'')]) 1 srv0)) 1) =
        closed (heap srv0 1) @ [(4100, Lit ''Invalid secret key.'')]"
    using identify_rejection_closes [of "identify ''B'' [(''secret_key'', JStr ''guess'')]" _ 1 srv0
        "JObj [(''secret_key'', JStr ''guess'')]" "JStr ''guess''"] t2 d2 k2 n2 by blast
  have i3: "py_get no_override ''identifier'' = Returns (JStr ''A'')"
    by (simp add: example_defs)
  have t3: "py_getitem no_override ''type'' = Returns (JStr ''IDENTIFY'')"
    by (simp add: example_defs)
  have d3: "py_getitem no_override ''data'' = Returns (JObj [(''secret_key'', JStr ''s3cret'')])"
    by (simp add: example_defs)
  have k3: "py_getitem (JObj [(''secret_key'', JStr ''s3cret'')]) ''secret_key'' = Returns (JStr (secret_key srv0))"
    by (simp add: example_defs)
  have v3: "py_get (JObj [(''secret_key'', JStr ''s3cret'')]) ''override_key'' = Returns JNull"
    by simp
  have g3: "dict_get (connections srv0) (JStr ''A'') = Some 0"
    by (simp add: example_defs)
  have o3: "\<not> truthy JNull"
    by simp
  have r3: "closed (heap (snd (parse_identify no_override 1 srv0)) 1) =
        closed (heap srv0 1) @ [(4102, Lit ''Duplicate identifier on IDENTIFY'')]"
    using identify_rejection_closes [of no_override _ 1 srv0
        "JObj [(''secret_key'', JStr ''s3cret'')]" _ "JStr ''A''" JNull 0] i3 t3 d3 k3 v3 g3 o3 by blast
  show ?thesis
    using t1 n1 r1 t2 d2 k2 n2 r2 i3 t3 d3 k3 v3 g3 o3 r3 unfolding c append_Nil by blast
qed

section \<open>Requests to all clients\<close>

text \<open>
  When \<open>request_all\<close> returns, its result has an entry for exactly the identifiers of
  the registry; and a connection that raises \<open>ConnectionClosedOK\<close> gives a
  \<open>RequestFailed\<close> value without stopping the loop.
\<close>

lemma py_eq_JStr_left [simp]: "py_eq (JStr i) k = (k = JStr i)"
  by (cases k) auto

lemma dict_get_dict_set_JStr:
  "dict_get (dict_set d k v) (JStr j) = (if k = JStr j then Some v else dict_get d (JStr j))"
  by (induction d) auto

lemma request_all_loop_keys:
  "request_all_loop route kwargs conns results s = (Returns res, s') \<Longrightarrow>
   (dict_get res (JStr j) \<noteq> None) =
     (dict_get results (JStr j) \<noteq> None \<or> dict_get conns (JStr j) \<noteq> None)"
proof (induction conns arbitrary: results s)
  case Nil
  then show ?case by simp
next
  case (Cons c conns)
  obtain i conn where c: "c = (i, conn)" by (cases c)
  obtain r s1 where t: "request_all_try route kwargs i conn s = (r, s1)"
    by (cases "request_all_try route kwargs i conn s")
  show ?case
  proof (cases r)
    case (Returns v)
    with Cons.prems c t
    have "request_all_loop route kwargs conns (dict_set results i v) s1 = (Returns res, s')"
      by simp
    from Cons.IH [OF this] show ?thesis
      by (auto simp: c dict_get_dict_set_JStr)
  next
    case (Raises e)
    with Cons.prems c t have e: "e = ConnectionClosedOK"
      by (auto split: if_splits)
    with Raises Cons.prems c t
    have "request_all_loop route kwargs conns
            (dict_set results i (Error (RequestFailed (JStr ''Connection Closed'')))) s1 = (Returns res, s')"
      by simp
    from Cons.IH [OF this] show ?thesis
      by (auto simp: c dict_get_dict_set_JStr)
  next
    case Hangs
    with Cons.prems c t show ?thesis by simp
  qed
qed

lemma request_all_keys:
  "request_all route kwargs s = (Returns res, s') \<Longrightarrow>
   (dict_get res (JStr j) \<noteq> None) = (dict_get (connections s) (JStr j) \<noteq> None)"
  using request_all_loop_keys [of route kwargs "connections s" "[]" s res s' j]
  by (simp add: request_all_def)

lemma request_all_closed_ok:
  "request_all ''ping'' [] srv_closed_ok =
     (Returns [(JStr ''A'', Error (RequestFailed (JStr ''Connection Closed''))),
               (JStr ''B'', Data (JStr ''pong''))],
      srv_closed_ok\<lparr>heap := (\<lambda>_. idle)
        (0 := idle\<lparr>sent := [json_dumps (Packet (JStr ''A'') ''REQUEST'' (RequestPacket ''ping'' []))]\<rparr>,
         1 := idle\<lparr>sent := [json_dumps (Packet (JStr ''B'') ''REQUEST'' (RequestPacket ''ping'' []))]\<rparr>)\<rparr>)"
  by (simp add: srv_closed_ok_def Server_init_def idle_def request_all_def request_all_try_def
        server_send_def socket_send_def server_recv_def socket_recv_def json_dumps_def Packet_def)

text \<open>
  C2 does not hold of the code. On the framework's sockets a connection that is gone makes
  \<open>server_recv\<close> raise \<open>RequestFailed\<close>, which the handler of
  \<open>request_all\<close> (for \<open>ConnectionClosedOK\<close> only) does not catch: with the
  clients \<open>A\<close> and \<open>B\<close> registered and the connection of \<open>A\<close> gone,
  \<open>request_all\<close> raises instead of returning a mapping, and \<open>B\<close> is never
  asked.
\<close>

theorem request_all_fastapi_disconnect:
  "using_fastapi_websockets srv_fastapi
   \<and> connections srv_fastapi = [(JStr ''A'', 0), (JStr ''B'', 1)]
   \<and> inbox (heap srv_fastapi 0) = [Fault WebSocketDisconnect]
   \<and> fst (request_all ''ping'' [] srv_fastapi) =
        Raises (RequestFailed (JStr ''Websocket disconnected while waiting for receive.''))
   \<and> sent (heap (snd (request_all ''ping'' [] srv_fastapi)) 1) = []"
  by (simp add: srv_fastapi_def Server_init_def idle_def request_all_def request_all_try_def
        server_send_def socket_send_def server_recv_def socket_recv_def)

end
